theory Spec2Isabelle
  imports Main
begin

section \<open>Text primitives of the host language\<close>

text \<open>
  The widget of \<^verbatim>\<open>src/App.tsx\<close> works on JavaScript strings. A string is modelled as
  a \<^typ>\<open>string\<close>, one \<^typ>\<open>char\<close> for each code unit below 256. The functions below
  are the built-ins the handlers call: \<^verbatim>\<open>trim\<close>, \<^verbatim>\<open>toLowerCase\<close>,
  \<^verbatim>\<open>substring(1)\<close> (written \<^term>\<open>drop 1\<close>), \<^verbatim>\<open>split("/")\<close>,
  \<^verbatim>\<open>padStart(2, "0")\<close>, \<^verbatim>\<open>parseInt(_, 10)\<close>, the conversion of a number to
  text inside a template literal, and the four regular expressions of \<^verbatim>\<open>handleBlur\<close>.
\<close>

definition isDigit :: "char \<Rightarrow> bool" where
  \<comment> \<open>the class \<^verbatim>\<open>\d\<close>: the ten ASCII digits\<close>
  "isDigit c = (c \<in> set ''0123456789'')"

definition digitValue :: "char \<Rightarrow> nat" where
  "digitValue c = of_char c - 48"

definition isWhiteSpace :: "char \<Rightarrow> bool" where
  \<comment> \<open>white space and line terminators below 256: TAB, LF, VT, FF, CR, SP, NBSP\<close>
  "isWhiteSpace c = (of_char c \<in> {9, 10, 11, 12, 13, 32, 160 :: nat})"

definition trim :: "string \<Rightarrow> string" where
  "trim s = rev (dropWhile isWhiteSpace (rev (dropWhile isWhiteSpace s)))"

definition toLowerCase_char :: "char \<Rightarrow> char" where
  \<comment> \<open>A-Z, and the capital letters of Latin-1 (all of 192..222 but the sign 215)\<close>
  "toLowerCase_char c =
     (let n = of_char c :: nat
      in if (65 \<le> n \<and> n \<le> 90) \<or> (192 \<le> n \<and> n \<le> 222 \<and> n \<noteq> 215)
         then char_of (n + 32) else c)"

definition toLowerCase :: "string \<Rightarrow> string" where
  "toLowerCase s = map toLowerCase_char s"

fun split_on :: "char \<Rightarrow> string \<Rightarrow> string list" where
  "split_on sep [] = [[]]"
| "split_on sep (c # cs) =
     (if c = sep then [] # split_on sep cs
      else (case split_on sep cs of
              p # ps \<Rightarrow> (c # p) # ps
            | [] \<Rightarrow> [[c]]))"

definition padStart :: "nat \<Rightarrow> char \<Rightarrow> string \<Rightarrow> string" where
  "padStart n c s = replicate (n - length s) c @ s"

fun digitsOf :: "nat \<Rightarrow> string" where
  "digitsOf n =
     (if n < 10 then [''0123456789'' ! n]
      else digitsOf (n div 10) @ [''0123456789'' ! (n mod 10)])"

definition Number_toString :: "int \<Rightarrow> string" where
  \<comment> \<open>an integral number inside a template literal\<close>
  "Number_toString i = (if i < 0 then CHR ''-'' # digitsOf (nat (- i)) else digitsOf (nat i))"

definition parseInt :: "string \<Rightarrow> nat" where
  \<comment> \<open>\<^verbatim>\<open>parseInt(s, 10)\<close> for \<^verbatim>\<open>s\<close> starting with a digit, which the regular
      expressions before each call ensure. The source's number is a double: it is the
      number computed here up to \<open>MAX_SAFE_INTEGER\<close>, and a rounded one beyond.\<close>
  "parseInt s = foldl (\<lambda>acc c. 10 * acc + digitValue c) 0 (takeWhile isDigit s)"


definition test_letter_digits :: "char \<Rightarrow> string \<Rightarrow> bool" where
  \<comment> \<open>\<^verbatim>\<open>/^x\d+$/.test(s)\<close> for the letter \<^verbatim>\<open>x\<close>\<close>
  "test_letter_digits x s =
     (case s of [] \<Rightarrow> False | c # ds \<Rightarrow> c = x \<and> ds \<noteq> [] \<and> list_all isDigit ds)"

definition test_short_date :: "string \<Rightarrow> bool" where
  \<comment> \<open>\<^verbatim>\<open>/^\d{1,2}\/\d{1,2}$/.test(s)\<close>\<close>
  "test_short_date s =
     (let m = takeWhile isDigit s; r = dropWhile isDigit s
      in (length m = 1 \<or> length m = 2) \<and>
         (case r of
            [] \<Rightarrow> False
          | c # d \<Rightarrow> c = CHR ''/'' \<and> (length d = 1 \<or> length d = 2) \<and> list_all isDigit d))"

section \<open>The date library and the picker, as parameters\<close>

text \<open>
  The date values come from the library \<^verbatim>\<open>dayjs\<close>, which is not part of the
  repository. The component is therefore modelled over any type \<open>'d\<close> of date objects
  and a record of the library operations it calls. \<^verbatim>\<open>dayjs()\<close> is
  \<open>dayjs_now\<close>, \<^verbatim>\<open>dayjs(text, format)\<close> is \<open>dayjs_parse\<close>.
\<close>

datatype manipulate_unit = Day | Month | Year

record 'd dayjs_api =
  dayjs_now :: 'd
  dayjs_parse :: "string \<Rightarrow> string \<Rightarrow> 'd"
  dayjs_isValid :: "'d \<Rightarrow> bool"
  dayjs_format :: "'d \<Rightarrow> string \<Rightarrow> string"
  dayjs_add :: "'d \<Rightarrow> int \<Rightarrow> manipulate_unit \<Rightarrow> 'd"
  dayjs_subtract :: "'d \<Rightarrow> int \<Rightarrow> manipulate_unit \<Rightarrow> 'd"
  dayjs_year :: "'d \<Rightarrow> int"
  dayjs_isSame :: "'d \<Rightarrow> 'd option \<Rightarrow> bool"

text \<open>
  A value of the picker is \<^verbatim>\<open>Dayjs | null\<close>: \<^term>\<open>None\<close> is \<^verbatim>\<open>null\<close>.
  \<^verbatim>\<open>dayjs.isDayjs\<close> tells a date object from anything else, so on this type it tells
  \<^term>\<open>Some d\<close> from \<^term>\<open>None\<close>, whether \<open>d\<close> is a valid date or not.
\<close>

definition isDayjs :: "'d option \<Rightarrow> bool" where
  "isDayjs v = (case v of None \<Rightarrow> False | Some d \<Rightarrow> True)"

datatype dom_effect = PreventDefault | StopPropagation | FocusInput | SelectInput

text \<open>
  The state the handlers read and write: the value and field format of the picker
  context, the two pieces of React state of \<^verbatim>\<open>useInputValue\<close>, the focus flag
  \<^verbatim>\<open>shouldMaintainFocusRef.current\<close>, whether the popover is open, the calls made
  on the event and on the input element (latest last), and the state \<open>'h\<close> of the
  surrounding application, which only the callbacks of the props touch.
\<close>

record ('d, 'h) field_state =
  pickerValue :: "'d option"
  fieldFormat :: string
  inputValue :: string
  lastValueProp :: "'d option"
  shouldMaintainFocus :: bool
  pickerOpen :: bool
  domEffects :: "dom_effect list"
  host :: 'h

record 'h field_props =
  clearable :: "bool option"
  onClear :: "('h \<Rightarrow> 'h) option"
  onBlur :: "('h \<Rightarrow> 'h) option"

record key_event =
  ctrlKey :: bool
  key :: string

definition setValue :: "'d option \<Rightarrow> ('d, 'h) field_state \<Rightarrow> ('d, 'h) field_state" where
  "setValue v s = s\<lparr>pickerValue := v\<rparr>"

definition setInputValue :: "string \<Rightarrow> ('d, 'h) field_state \<Rightarrow> ('d, 'h) field_state" where
  "setInputValue t s = s\<lparr>inputValue := t\<rparr>"

definition call :: "('h \<Rightarrow> 'h) option \<Rightarrow> ('d, 'h) field_state \<Rightarrow> ('d, 'h) field_state" where
  \<comment> \<open>\<^verbatim>\<open>if (f) { f(...) }\<close>\<close>
  "call cb s = (case cb of None \<Rightarrow> s | Some f \<Rightarrow> s\<lparr>host := f (host s)\<rparr>)"

definition effects :: "dom_effect list \<Rightarrow> ('d, 'h) field_state \<Rightarrow> ('d, 'h) field_state" where
  "effects es s = s\<lparr>domEffects := domEffects s @ es\<rparr>"

section \<open>The component\<close>

subsection \<open>\<^verbatim>\<open>createInputValue\<close>, in the first and in the second document\<close>

definition createInputValue_v1 :: "'d dayjs_api \<Rightarrow> 'd option \<Rightarrow> string \<Rightarrow> string" where
  "createInputValue_v1 L v fmt =
     (case v of
        None \<Rightarrow> ''''
      | Some d \<Rightarrow> (if dayjs_isValid L d then dayjs_format L d fmt else ''''))"

definition createInputValue :: "'d dayjs_api \<Rightarrow> 'd option \<Rightarrow> string \<Rightarrow> string" where
  "createInputValue L v fmt =
     (case v of
        None \<Rightarrow> ''''
      | Some d \<Rightarrow> (if dayjs_isValid L d then dayjs_format L d fmt else ''''))"

text \<open>
  The helper as the specification words it: the empty string when the value is null or
  invalid, the value formatted with the format string otherwise.
\<close>

definition createInputValue_spec :: "'d dayjs_api \<Rightarrow> 'd option \<Rightarrow> string \<Rightarrow> string" where
  "createInputValue_spec L v fmt =
     (if v = None \<or> \<not> dayjs_isValid L (the v) then '''' else dayjs_format L (the v) fmt)"

subsection \<open>The handlers of the second document\<close>

definition handleChange :: "string \<Rightarrow> ('d, 'h) field_state \<Rightarrow> ('d, 'h) field_state" where
  "handleChange target_value s = setInputValue target_value s"

definition shift_today ::
  "'d dayjs_api \<Rightarrow> string \<Rightarrow> manipulate_unit \<Rightarrow> ('d, 'h) field_state \<Rightarrow> ('d, 'h) field_state" where
  \<comment> \<open>the body shared by the branches \<^verbatim>\<open>d<n>\<close>, \<^verbatim>\<open>m<n>\<close> and \<^verbatim>\<open>y<n>\<close>\<close>
  "shift_today L lower u s =
     (let amount = parseInt (drop 1 lower);
          newDate = dayjs_add L (dayjs_now L) (int amount) u
      in setInputValue (createInputValue L (Some newDate) (fieldFormat s))
           (setValue (Some newDate) s))"

definition parseShortDate :: "'d dayjs_api \<Rightarrow> string \<Rightarrow> 'd option" where
  \<comment> \<open>the first three statements of the branch for \<^verbatim>\<open>4/5\<close>: the two parts of the split,
      each padded to two digits, and the current year, parsed as \<^verbatim>\<open>MM/DD/YYYY\<close>.
      The regular expression tested before ensures that the split has two parts.\<close>
  "parseShortDate L currentInput =
     (case split_on (CHR ''/'') currentInput of
        month # day # rest \<Rightarrow>
          (let currentYear = dayjs_year L (dayjs_now L)
           in Some (dayjs_parse L
                      (padStart 2 (CHR ''0'') month @ ''/'' @ padStart 2 (CHR ''0'') day
                         @ ''/'' @ Number_toString currentYear)
                      ''MM/DD/YYYY''))
      | _ \<Rightarrow> None)"

definition handleBlur ::
  "'d dayjs_api \<Rightarrow> 'h field_props \<Rightarrow> string \<Rightarrow> ('d, 'h) field_state \<Rightarrow> ('d, 'h) field_state" where
  "handleBlur L P target_value s =
     (let currentInput = trim target_value;
          lower = toLowerCase currentInput;
          s1 =
            (if lower = ''d'' then
               (let today = dayjs_now L
                in setInputValue (createInputValue L (Some today) (fieldFormat s))
                     (setValue (Some today) s))
             else if test_letter_digits (CHR ''d'') lower then shift_today L lower Day s
             else if test_letter_digits (CHR ''m'') lower then shift_today L lower Month s
             else if test_letter_digits (CHR ''y'') lower then shift_today L lower Year s
             else if test_short_date currentInput then
               (case parseShortDate L currentInput of
                  Some newDate \<Rightarrow>
                    (if dayjs_isValid L newDate
                     then setInputValue (createInputValue L (Some newDate) (fieldFormat s))
                            (setValue (Some newDate) s)
                     else s)
                | None \<Rightarrow> s)
             else setValue (Some (dayjs_parse L currentInput (fieldFormat s))) s)
      in call (onBlur P) s1)"

definition handleClearClick ::
  "'h field_props \<Rightarrow> ('d, 'h) field_state \<Rightarrow> ('d, 'h) field_state" where
  "handleClearClick P s =
     effects [FocusInput]
       (call (onClear P)
          (setInputValue '''' (setValue None (effects [PreventDefault] s))))"

definition nudge :: "'d dayjs_api \<Rightarrow> string \<Rightarrow> 'd \<Rightarrow> 'd option" where
  \<comment> \<open>the \<^verbatim>\<open>switch\<close> of \<^verbatim>\<open>handleKeyDown\<close>: the new date, \<^verbatim>\<open>null\<close> for any other key\<close>
  "nudge L k v =
     (if k = ''ArrowUp'' then Some (dayjs_add L v 1 Year)
      else if k = ''ArrowDown'' then Some (dayjs_subtract L v 1 Year)
      else if k = ''ArrowRight'' then Some (dayjs_add L v 1 Month)
      else if k = ''ArrowLeft'' then Some (dayjs_subtract L v 1 Month)
      else None)"

definition handleKeyDown ::
  "'d dayjs_api \<Rightarrow> key_event \<Rightarrow> ('d, 'h) field_state \<Rightarrow> ('d, 'h) field_state" where
  "handleKeyDown L event s =
     (if ctrlKey event \<and> pickerValue s \<noteq> None \<and> isDayjs (pickerValue s) then
        (case pickerValue s of
           None \<Rightarrow> s
         | Some v \<Rightarrow>
             (case nudge L (key event) v of
                None \<Rightarrow> s
              | Some newDate \<Rightarrow>
                  setInputValue (createInputValue L (Some newDate) (fieldFormat s))
                    (setValue (Some newDate)
                       ((effects [PreventDefault, StopPropagation] s)
                          \<lparr>shouldMaintainFocus := True\<rparr>))))
      else s)"

subsection \<open>The hooks and what is rendered\<close>

definition useInputValue_effect ::
  "'d dayjs_api \<Rightarrow> ('d, 'h) field_state \<Rightarrow> ('d, 'h) field_state" where
  \<comment> \<open>the effect of \<^verbatim>\<open>useInputValue\<close>, run by React after a render in which the
      picker value, the field format or \<^verbatim>\<open>lastValueProp\<close> changed\<close>
  "useInputValue_effect L s =
     (if \<not> isDayjs (pickerValue s)
         \<or> \<not> dayjs_isSame L (the (pickerValue s)) (lastValueProp s)
         \<or> (lastValueProp s = None \<and> pickerValue s \<noteq> None)
         \<or> (lastValueProp s \<noteq> None \<and> pickerValue s = None)
      then (setInputValue (createInputValue L (pickerValue s) (fieldFormat s)) s)
             \<lparr>lastValueProp := pickerValue s\<rparr>
      else s)"

definition focus_effect :: "('d, 'h) field_state \<Rightarrow> ('d, 'h) field_state" where
  \<comment> \<open>the effect that keeps the focus after a keyboard shortcut\<close>
  "focus_effect s =
     (if shouldMaintainFocus s
      then effects [FocusInput, SelectInput] (s\<lparr>shouldMaintainFocus := False\<rparr>)
      else s)"

definition hasValidationError :: "('d option \<Rightarrow> string option) \<Rightarrow> ('d, 'h) field_state \<Rightarrow> bool" where
  \<comment> \<open>\<^verbatim>\<open>useValidation\<close> of the picker library with its validator \<^verbatim>\<open>validateDate\<close>,
      a parameter here: the flag is set when the validator returns an error, not \<^verbatim>\<open>null\<close>\<close>
  "hasValidationError validateDate s = (validateDate (pickerValue s) \<noteq> None)"

definition textField_value :: "('d, 'h) field_state \<Rightarrow> string" where
  "textField_value s = inputValue s"

definition textField_error :: "('d option \<Rightarrow> string option) \<Rightarrow> ('d, 'h) field_state \<Rightarrow> bool" where
  "textField_error validateDate s = hasValidationError validateDate s"

definition clearButton_rendered :: "'h field_props \<Rightarrow> ('d, 'h) field_state \<Rightarrow> bool" where
  \<comment> \<open>\<^verbatim>\<open>clearable && pickerContext.value && (...)\<close>: a date object is truthy\<close>
  "clearButton_rendered P s = (clearable P = Some True \<and> pickerValue s \<noteq> None)"

definition openPicker :: "('d, 'h) field_state \<Rightarrow> ('d, 'h) field_state" where
  "openPicker s = s\<lparr>pickerOpen := True\<rparr>"

section \<open>A calendar instance of the library\<close>

text \<open>
  The theorems below hold for every library record. To run them on concrete inputs, this
  section gives one instance: proleptic Gregorian dates without a time of day, strict
  parsing and printing of the one format \<^verbatim>\<open>MM/DD/YYYY\<close>, and arithmetic that clamps the
  day to the length of the month. It is an instance for evaluation, not a model of
  \<^verbatim>\<open>dayjs\<close>.
\<close>

datatype cal = InvalidDate | Date int nat nat

definition isLeapYear :: "int \<Rightarrow> bool" where
  "isLeapYear y = (y mod 4 = 0 \<and> (y mod 100 \<noteq> 0 \<or> y mod 400 = 0))"

definition daysInMonth :: "int \<Rightarrow> nat \<Rightarrow> nat" where
  "daysInMonth y m =
     (if m = 2 then (if isLeapYear y then 29 else 28)
      else if m = 4 \<or> m = 6 \<or> m = 9 \<or> m = 11 then 30 else 31)"

definition cal_clamp :: "int \<Rightarrow> nat \<Rightarrow> nat \<Rightarrow> cal" where
  "cal_clamp y m d = Date y m (min d (daysInMonth y m))"

fun next_day :: "cal \<Rightarrow> cal" where
  "next_day InvalidDate = InvalidDate"
| "next_day (Date y m d) =
     (if d < daysInMonth y m then Date y m (d + 1)
      else if m < 12 then Date y (m + 1) 1
      else Date (y + 1) 1 1)"

fun prev_day :: "cal \<Rightarrow> cal" where
  "prev_day InvalidDate = InvalidDate"
| "prev_day (Date y m d) =
     (if 1 < d then Date y m (d - 1)
      else if 1 < m then Date y (m - 1) (daysInMonth y (m - 1))
      else Date (y - 1) 12 31)"

fun cal_add :: "cal \<Rightarrow> int \<Rightarrow> manipulate_unit \<Rightarrow> cal" where
  "cal_add InvalidDate n u = InvalidDate"
| "cal_add (Date y m d) n Day =
     (if 0 \<le> n then (next_day ^^ nat n) (Date y m d) else (prev_day ^^ nat (- n)) (Date y m d))"
| "cal_add (Date y m d) n Month =
     (let t = y * 12 + int m - 1 + n in cal_clamp (t div 12) (nat (t mod 12) + 1) d)"
| "cal_add (Date y m d) n Year = cal_clamp (y + n) m d"

definition cal_parse :: "string \<Rightarrow> string \<Rightarrow> cal" where
  "cal_parse t fmt =
     (if fmt = ''MM/DD/YYYY'' \<and> length t = 10 \<and> t ! 2 = CHR ''/'' \<and> t ! 5 = CHR ''/''
         \<and> list_all isDigit (take 2 t) \<and> list_all isDigit (take 2 (drop 3 t))
         \<and> list_all isDigit (drop 6 t)
      then (let m = parseInt (take 2 t); d = parseInt (take 2 (drop 3 t));
                y = int (parseInt (drop 6 t))
            in if 1 \<le> m \<and> m \<le> 12 \<and> 1 \<le> d \<and> d \<le> daysInMonth y m
               then Date y m d else InvalidDate)
      else InvalidDate)"

fun cal_format :: "cal \<Rightarrow> string \<Rightarrow> string" where
  "cal_format InvalidDate fmt = ''Invalid Date''"
| "cal_format (Date y m d) fmt =
     (if fmt = ''MM/DD/YYYY''
      then padStart 2 (CHR ''0'') (digitsOf m) @ ''/'' @ padStart 2 (CHR ''0'') (digitsOf d)
             @ ''/'' @ padStart 4 (CHR ''0'') (Number_toString y)
      else fmt)"

fun cal_year :: "cal \<Rightarrow> int" where
  "cal_year InvalidDate = 0"
| "cal_year (Date y m d) = y"

definition calendar :: "cal \<Rightarrow> cal dayjs_api" where
  \<comment> \<open>the instance, given today's date\<close>
  "calendar today =
     \<lparr>dayjs_now = today,
      dayjs_parse = cal_parse,
      dayjs_isValid = (\<lambda>c. c \<noteq> InvalidDate),
      dayjs_format = cal_format,
      dayjs_add = cal_add,
      dayjs_subtract = (\<lambda>c n u. cal_add c (- n) u),
      dayjs_year = cal_year,
      dayjs_isSame = (\<lambda>c v. c \<noteq> InvalidDate \<and> v = Some c)\<rparr>"

definition cal_validateDate :: "cal option \<Rightarrow> string option" where
  \<comment> \<open>a validator without bounds: only an invalid date is an error\<close>
  "cal_validateDate v =
     (case v of
        None \<Rightarrow> None
      | Some c \<Rightarrow> (if c = InvalidDate then Some ''invalidDate'' else None))"

definition field0 :: "cal option \<Rightarrow> string \<Rightarrow> (cal, nat) field_state" where
  \<comment> \<open>a field showing the text \<open>t\<close> over the picker value \<open>v\<close>, in the format of the demo;
      the application state counts the calls of the callbacks\<close>
  "field0 v t =
     \<lparr>pickerValue = v, fieldFormat = ''MM/DD/YYYY'', inputValue = t, lastValueProp = v,
      shouldMaintainFocus = False, pickerOpen = False, domEffects = [], host = 0\<rparr>"

definition props0 :: "nat field_props" where
  "props0 = \<lparr>clearable = Some True, onClear = Some Suc, onBlur = None\<rparr>"

definition demo :: "cal dayjs_api" where
  "demo = calendar (Date 2026 11 3)"



definition invalid_then_typed :: "(cal, nat) field_state" where
  \<comment> \<open>the user types \<^verbatim>\<open>hello\<close> into the empty field and leaves it, React runs the effect of
      \<^verbatim>\<open>useInputValue\<close>, and the user comes back and types \<^verbatim>\<open>abc\<close>\<close>
  "invalid_then_typed =
     handleChange ''abc''
       (useInputValue_effect demo
          (handleBlur demo props0 ''hello'' (handleChange ''hello'' (field0 None ''''))))"

definition ctrl_ArrowUp :: key_event where
  "ctrl_ArrowUp = \<lparr>ctrlKey = True, key = ''ArrowUp''\<rparr>"

section \<open>Facts about the text primitives\<close>

declare digitsOf.simps [simp del]

lemma setValue_fields [simp]:
  "pickerValue (setValue v s) = v"
  "inputValue (setValue v s) = inputValue s"
  "fieldFormat (setValue v s) = fieldFormat s"
  "host (setValue v s) = host s"
  by (simp_all add: setValue_def)

lemma setInputValue_fields [simp]:
  "pickerValue (setInputValue t s) = pickerValue s"
  "inputValue (setInputValue t s) = t"
  "fieldFormat (setInputValue t s) = fieldFormat s"
  "host (setInputValue t s) = host s"
  by (simp_all add: setInputValue_def)

lemma call_fields [simp]:
  "pickerValue (call cb s) = pickerValue s"
  "inputValue (call cb s) = inputValue s"
  "fieldFormat (call cb s) = fieldFormat s"
  "host (call cb s) = (case cb of None \<Rightarrow> host s | Some f \<Rightarrow> f (host s))"
  by (simp_all add: call_def split: option.splits)

lemma effects_fields [simp]:
  "pickerValue (effects es s) = pickerValue s"
  "inputValue (effects es s) = inputValue s"
  "fieldFormat (effects es s) = fieldFormat s"
  "host (effects es s) = host s"
  by (simp_all add: effects_def)

lemma digit_cases:
  "isDigit c \<longleftrightarrow> c = CHR ''0'' \<or> c = CHR ''1'' \<or> c = CHR ''2'' \<or> c = CHR ''3'' \<or> c = CHR ''4''
     \<or> c = CHR ''5'' \<or> c = CHR ''6'' \<or> c = CHR ''7'' \<or> c = CHR ''8'' \<or> c = CHR ''9''"
  by (auto simp: isDigit_def)

lemma toLowerCase_char_digit: "isDigit c \<Longrightarrow> toLowerCase_char c = c"
  by (auto simp: digit_cases toLowerCase_char_def)

lemma digit_not_letter: "isDigit c \<Longrightarrow> c \<noteq> CHR ''d'' \<and> c \<noteq> CHR ''m'' \<and> c \<noteq> CHR ''y'' \<and> c \<noteq> CHR ''/''"
  by (auto simp: digit_cases)













lemma split_on_none: "sep \<notin> set xs \<Longrightarrow> split_on sep xs = [xs]"
  by (induction xs) auto

lemma split_on_once:
  "sep \<notin> set xs \<Longrightarrow> sep \<notin> set ys \<Longrightarrow> split_on sep (xs @ sep # ys) = [xs, ys]"
  by (induction xs) (auto simp: split_on_none)

lemma digits_no_slash: "list_all isDigit ds \<Longrightarrow> CHR ''/'' \<notin> set ds"
  by (auto simp: list_all_iff dest: digit_not_letter)

lemma slash_not_digit: "\<not> isDigit (CHR ''/'')"
  by (simp add: isDigit_def)

lemma test_short_date_shape:
  assumes "list_all isDigit mo" "length mo = 1 \<or> length mo = 2"
      and "list_all isDigit da" "length da = 1 \<or> length da = 2"
  shows "test_short_date (mo @ ''/'' @ da)"
proof -
  have mo: "\<And>x. x \<in> set mo \<Longrightarrow> isDigit x"
    using assms(1) by (simp add: list_all_iff)
  have t: "takeWhile isDigit (mo @ CHR ''/'' # da) = mo"
    by (simp add: takeWhile_append2 [OF mo] slash_not_digit)
  have d: "dropWhile isDigit (mo @ CHR ''/'' # da) = CHR ''/'' # da"
    by (simp add: dropWhile_append2 [OF mo] slash_not_digit)
  show ?thesis
    using assms by (simp add: test_short_date_def t d)
qed

lemma test_letter_digits_head: "test_letter_digits x (c # cs) \<Longrightarrow> c = x"
  by (simp add: test_letter_digits_def)

lemma short_date_lower:
  assumes "list_all isDigit mo" "mo \<noteq> []"
  shows "toLowerCase (mo @ ''/'' @ da) \<noteq> ''d''"
    and "\<not> test_letter_digits (CHR ''d'') (toLowerCase (mo @ ''/'' @ da))"
    and "\<not> test_letter_digits (CHR ''m'') (toLowerCase (mo @ ''/'' @ da))"
    and "\<not> test_letter_digits (CHR ''y'') (toLowerCase (mo @ ''/'' @ da))"
proof -
  from assms obtain c cs where mo: "mo = c # cs" and c: "isDigit c"
    by (cases mo) auto
  have hd: "toLowerCase (mo @ ''/'' @ da) = c # toLowerCase (cs @ ''/'' @ da)"
    by (simp add: mo toLowerCase_def toLowerCase_char_digit [OF c])
  from digit_not_letter [OF c] show "toLowerCase (mo @ ''/'' @ da) \<noteq> ''d''"
    and "\<not> test_letter_digits (CHR ''d'') (toLowerCase (mo @ ''/'' @ da))"
    and "\<not> test_letter_digits (CHR ''m'') (toLowerCase (mo @ ''/'' @ da))"
    and "\<not> test_letter_digits (CHR ''y'') (toLowerCase (mo @ ''/'' @ da))"
    unfolding hd by (auto dest: test_letter_digits_head)
qed

section \<open>Facts about the handlers\<close>


lemma createInputValue_valid:
  "dayjs_isValid L d \<Longrightarrow> createInputValue L (Some d) fmt = dayjs_format L d fmt"
  by (simp add: createInputValue_def)



lemma parseShortDate_parts:
  assumes "list_all isDigit mo" "list_all isDigit da"
  shows "parseShortDate L (mo @ ''/'' @ da) =
     Some (dayjs_parse L
             (padStart 2 (CHR ''0'') mo @ ''/'' @ padStart 2 (CHR ''0'') da
                @ ''/'' @ Number_toString (dayjs_year L (dayjs_now L)))
             ''MM/DD/YYYY'')"
proof -
  have "split_on (CHR ''/'') (mo @ ''/'' @ da) = [mo, da]"
    using split_on_once [OF digits_no_slash [OF assms(1)] digits_no_slash [OF assms(2)]] by simp
  then show ?thesis
    by (simp add: parseShortDate_def Let_def)
qed

lemma test_short_date_parts:
  assumes "test_short_date ci"
  obtains mo da where "ci = mo @ ''/'' @ da"
    and "list_all isDigit mo" and "length mo = 1 \<or> length mo = 2"
    and "list_all isDigit da" and "length da = 1 \<or> length da = 2"
proof -
  let ?mo = "takeWhile isDigit ci"
  from assms obtain da where r: "dropWhile isDigit ci = CHR ''/'' # da"
    and da: "list_all isDigit da" "length da = 1 \<or> length da = 2"
    and mo: "length ?mo = 1 \<or> length ?mo = 2"
    by (auto simp: test_short_date_def Let_def split: list.splits)
  have "ci = ?mo @ dropWhile isDigit ci" by simp
  then have ci: "ci = ?mo @ ''/'' @ da" using r by simp
  have digits: "list_all isDigit ?mo"
    by (auto simp: list_all_iff dest: set_takeWhileD)
  show ?thesis
    by (rule that [OF ci digits mo da])
qed

lemma blur_short_date:
  assumes t: "test_short_date (trim target_value)"
  shows "handleBlur L P target_value s =
     call (onBlur P)
       (case parseShortDate L (trim target_value) of
          Some newDate \<Rightarrow>
            (if dayjs_isValid L newDate
             then setInputValue (createInputValue L (Some newDate) (fieldFormat s))
                    (setValue (Some newDate) s)
             else s)
        | None \<Rightarrow> s)"
proof -
  from t obtain mo da where ci: "trim target_value = mo @ ''/'' @ da"
    and mo: "list_all isDigit mo" "length mo = 1 \<or> length mo = 2"
    by (rule test_short_date_parts)
  from mo have ne: "mo \<noteq> []" by auto
  note no = short_date_lower [OF mo(1) ne, of da, folded ci]
  show ?thesis
    unfolding handleBlur_def Let_def
    by (simp only: no t if_False if_True)
qed

section \<open>The properties\<close>

subsection \<open>The shorthand for today\<close>

text \<open>
  Claim C1. On a blur event whose trimmed, lowercased text is exactly \<^verbatim>\<open>d\<close>, the handler
  sets the picker value to the current date and the input text to the rendering of that
  date in the field format, which is the formatted date when the current date is valid.
\<close>

theorem blur_today:
  assumes "toLowerCase (trim target_value) = ''d''"
  shows "pickerValue (handleBlur L P target_value s) = Some (dayjs_now L)
    \<and> inputValue (handleBlur L P target_value s)
        = createInputValue L (Some (dayjs_now L)) (fieldFormat s)
    \<and> (dayjs_isValid L (dayjs_now L) \<longrightarrow>
         inputValue (handleBlur L P target_value s) = dayjs_format L (dayjs_now L) (fieldFormat s))"
  using assms by (simp add: handleBlur_def Let_def createInputValue_valid)

text \<open>On 3 November 2026 the text \<^verbatim>\<open> D \<close> gives that day, shown as \<^verbatim>\<open>11/03/2026\<close>.\<close>

theorem blur_today_witness:
  "toLowerCase (trim '' D '') = ''d''
   \<and> pickerValue (handleBlur demo props0 '' D '' (field0 None '' D '')) = Some (Date 2026 11 3)
   \<and> inputValue (handleBlur demo props0 '' D '' (field0 None '' D '')) = ''11/03/2026''"
proof -
  have h: "toLowerCase (trim '' D '') = ''d''"
    by code_simp
  have now: "dayjs_now demo = Date 2026 11 3" and valid: "dayjs_isValid demo (dayjs_now demo)"
    by (simp_all add: demo_def calendar_def)
  have shown: "dayjs_format demo (dayjs_now demo) (fieldFormat (field0 None '' D '')) = ''11/03/2026''"
    by code_simp
  from blur_today [OF h, of demo props0 "field0 None '' D ''"] valid
  have "pickerValue (handleBlur demo props0 '' D '' (field0 None '' D '')) = Some (dayjs_now demo)
    \<and> inputValue (handleBlur demo props0 '' D '' (field0 None '' D ''))
        = dayjs_format demo (dayjs_now demo) (fieldFormat (field0 None '' D ''))"
    by blast
  with h now shown show ?thesis by simp
qed

subsection \<open>The shorthands that add days, months and years\<close>



subsection \<open>Month and day\<close>

text \<open>
  Claim C3. A trimmed text of one or two digits, a slash and one or two digits is read as
  month and day: each part is padded with zeros to two digits, the current year is
  appended, and the result is parsed with the format \<^verbatim>\<open>MM/DD/YYYY\<close>. If that date is
  valid, it becomes the picker value and the input text becomes its rendering in the
  field format.
\<close>

theorem blur_month_day:
  assumes mo: "list_all isDigit mo" "length mo = 1 \<or> length mo = 2"
      and da: "list_all isDigit da" "length da = 1 \<or> length da = 2"
      and input: "trim target_value = mo @ ''/'' @ da"
      and newDate: "newDate = dayjs_parse L
              (padStart 2 (CHR ''0'') mo @ ''/'' @ padStart 2 (CHR ''0'') da
                 @ ''/'' @ Number_toString (dayjs_year L (dayjs_now L)))
              ''MM/DD/YYYY''"
      and valid: "dayjs_isValid L newDate"
  shows "pickerValue (handleBlur L P target_value s) = Some newDate
    \<and> inputValue (handleBlur L P target_value s) = createInputValue L (Some newDate) (fieldFormat s)
    \<and> inputValue (handleBlur L P target_value s) = dayjs_format L newDate (fieldFormat s)"
proof -
  have t: "test_short_date (trim target_value)"
    unfolding input by (rule test_short_date_shape [OF mo da])
  have p: "parseShortDate L (trim target_value) = Some newDate"
    unfolding input newDate by (rule parseShortDate_parts [OF mo(1) da(1)])
  show ?thesis
    using valid by (simp add: blur_short_date [OF t] p createInputValue_valid)
qed

text \<open>In 2026 the text \<^verbatim>\<open>4/5\<close> gives 5 April 2026.\<close>

theorem blur_month_day_witness:
  "list_all isDigit ''4'' \<and> list_all isDigit ''5'' \<and> trim '' 4/5'' = ''4'' @ ''/'' @ ''5''
   \<and> dayjs_isValid demo (Date 2026 4 5)
   \<and> pickerValue (handleBlur demo props0 '' 4/5'' (field0 None '' 4/5'')) = Some (Date 2026 4 5)
   \<and> inputValue (handleBlur demo props0 '' 4/5'' (field0 None '' 4/5'')) = ''04/05/2026''"
proof -
  have mo: "list_all isDigit ''4''" "length ''4'' = 1 \<or> length ''4'' = 2"
    by (simp_all add: isDigit_def)
  have da: "list_all isDigit ''5''" "length ''5'' = 1 \<or> length ''5'' = 2"
    by (simp_all add: isDigit_def)
  have input: "trim '' 4/5'' = ''4'' @ ''/'' @ ''5''"
    by code_simp
  have newDate: "Date 2026 4 5 = dayjs_parse demo
              (padStart 2 (CHR ''0'') ''4'' @ ''/'' @ padStart 2 (CHR ''0'') ''5''
                 @ ''/'' @ Number_toString (dayjs_year demo (dayjs_now demo)))
              ''MM/DD/YYYY''"
    by code_simp
  have valid: "dayjs_isValid demo (Date 2026 4 5)"
    by (simp add: demo_def calendar_def)
  have shown: "dayjs_format demo (Date 2026 4 5) (fieldFormat (field0 None '' 4/5'')) = ''04/05/2026''"
    by code_simp
  from blur_month_day [OF mo da input newDate valid, of props0 "field0 None '' 4/5''"]
  have "pickerValue (handleBlur demo props0 '' 4/5'' (field0 None '' 4/5'')) = Some (Date 2026 4 5)
    \<and> inputValue (handleBlur demo props0 '' 4/5'' (field0 None '' 4/5''))
        = dayjs_format demo (Date 2026 4 5) (fieldFormat (field0 None '' 4/5''))"
    by blast
  with mo da input valid shown show ?thesis by simp
qed

subsection \<open>What the blur handler does to the input text\<close>




subsection \<open>Normal parsing and the error flag\<close>

text \<open>
  Claim C5. A text that matches none of the shorthand patterns is parsed against the field
  format and the result is stored as the picker value, valid or not. The error flag of the
  text field is the verdict of the validator on the picker value, so with a validator that
  reports an error for every invalid date, an invalid stored value sets the flag.
\<close>

theorem blur_normal_parsing:
  assumes "toLowerCase (trim target_value) \<noteq> ''d''"
      and "\<not> test_letter_digits (CHR ''d'') (toLowerCase (trim target_value))"
      and "\<not> test_letter_digits (CHR ''m'') (toLowerCase (trim target_value))"
      and "\<not> test_letter_digits (CHR ''y'') (toLowerCase (trim target_value))"
      and "\<not> test_short_date (trim target_value)"
  shows "pickerValue (handleBlur L P target_value s)
        = Some (dayjs_parse L (trim target_value) (fieldFormat s))
    \<and> ((\<forall>d. \<not> dayjs_isValid L d \<longrightarrow> validateDate (Some d) \<noteq> None)
         \<and> \<not> dayjs_isValid L (dayjs_parse L (trim target_value) (fieldFormat s))
       \<longrightarrow> textField_error validateDate (handleBlur L P target_value s))"
  using assms
  by (simp add: handleBlur_def Let_def textField_error_def hasValidationError_def)

text \<open>The text \<^verbatim>\<open>hello\<close> stores an invalid date and sets the flag.\<close>

theorem blur_normal_parsing_witness:
  "toLowerCase (trim ''hello'') \<noteq> ''d'' \<and> \<not> test_short_date (trim ''hello'')
   \<and> \<not> dayjs_isValid demo (dayjs_parse demo (trim ''hello'') ''MM/DD/YYYY'')
   \<and> pickerValue (handleBlur demo props0 ''hello'' (field0 None ''hello'')) = Some InvalidDate
   \<and> textField_error cal_validateDate (handleBlur demo props0 ''hello'' (field0 None ''hello''))"
proof -
  have a: "toLowerCase (trim ''hello'') \<noteq> ''d''"
    and b: "\<not> test_letter_digits (CHR ''d'') (toLowerCase (trim ''hello''))"
    and c: "\<not> test_letter_digits (CHR ''m'') (toLowerCase (trim ''hello''))"
    and d: "\<not> test_letter_digits (CHR ''y'') (toLowerCase (trim ''hello''))"
    and e: "\<not> test_short_date (trim ''hello'')"
    by code_simp+
  have fmt: "fieldFormat (field0 None ''hello'') = ''MM/DD/YYYY''"
    by (simp add: field0_def)
  have parsed: "dayjs_parse demo (trim ''hello'') ''MM/DD/YYYY'' = InvalidDate"
    by code_simp
  have invalid: "\<not> dayjs_isValid demo InvalidDate"
    by (simp add: demo_def calendar_def)
  have contract: "\<forall>d. \<not> dayjs_isValid demo d \<longrightarrow> cal_validateDate (Some d) \<noteq> None"
    by (simp add: demo_def calendar_def cal_validateDate_def)
  from blur_normal_parsing [OF a b c d e, of demo props0 "field0 None ''hello''" cal_validateDate]
    contract invalid
  have "pickerValue (handleBlur demo props0 ''hello'' (field0 None ''hello'')) = Some InvalidDate
    \<and> textField_error cal_validateDate (handleBlur demo props0 ''hello'' (field0 None ''hello''))"
    unfolding fmt parsed by blast
  with a e invalid parsed show ?thesis by simp
qed

subsection \<open>Month and day that give no date\<close>



subsection \<open>The keyboard shortcuts\<close>

text \<open>
  Claim C7. With Ctrl held and a valid date as picker value, the key-down handler maps
  ArrowUp to the value plus one year, ArrowDown to minus one year, ArrowRight to plus one
  month and ArrowLeft to minus one month; the picker value becomes the new date and the
  input text its rendering in the field format.
\<close>

theorem keydown_nudge:
  assumes "ctrlKey event" and "pickerValue s = Some v" and "dayjs_isValid L v"
  shows "(key event = ''ArrowUp'' \<longrightarrow>
            pickerValue (handleKeyDown L event s) = Some (dayjs_add L v 1 Year)
          \<and> inputValue (handleKeyDown L event s)
              = createInputValue L (Some (dayjs_add L v 1 Year)) (fieldFormat s))
    \<and> (key event = ''ArrowDown'' \<longrightarrow>
            pickerValue (handleKeyDown L event s) = Some (dayjs_subtract L v 1 Year)
          \<and> inputValue (handleKeyDown L event s)
              = createInputValue L (Some (dayjs_subtract L v 1 Year)) (fieldFormat s))
    \<and> (key event = ''ArrowRight'' \<longrightarrow>
            pickerValue (handleKeyDown L event s) = Some (dayjs_add L v 1 Month)
          \<and> inputValue (handleKeyDown L event s)
              = createInputValue L (Some (dayjs_add L v 1 Month)) (fieldFormat s))
    \<and> (key event = ''ArrowLeft'' \<longrightarrow>
            pickerValue (handleKeyDown L event s) = Some (dayjs_subtract L v 1 Month)
          \<and> inputValue (handleKeyDown L event s)
              = createInputValue L (Some (dayjs_subtract L v 1 Month)) (fieldFormat s))"
  using assms by (simp add: handleKeyDown_def nudge_def isDayjs_def effects_def)

text \<open>Ctrl and ArrowLeft on 31 March 2026 give 28 February 2026.\<close>

theorem keydown_nudge_witness:
  "ctrlKey \<lparr>ctrlKey = True, key = ''ArrowLeft''\<rparr>
   \<and> dayjs_isValid demo (Date 2026 3 31)
   \<and> pickerValue (handleKeyDown demo \<lparr>ctrlKey = True, key = ''ArrowLeft''\<rparr>
        (field0 (Some (Date 2026 3 31)) ''03/31/2026'')) = Some (Date 2026 2 28)
   \<and> inputValue (handleKeyDown demo \<lparr>ctrlKey = True, key = ''ArrowLeft''\<rparr>
        (field0 (Some (Date 2026 3 31)) ''03/31/2026'')) = ''02/28/2026''"
proof -
  have ctrl: "ctrlKey \<lparr>ctrlKey = True, key = ''ArrowLeft''\<rparr>"
    and k: "key \<lparr>ctrlKey = True, key = ''ArrowLeft''\<rparr> = ''ArrowLeft''"
    by simp_all
  have v: "pickerValue (field0 (Some (Date 2026 3 31)) ''03/31/2026'') = Some (Date 2026 3 31)"
    by (simp add: field0_def)
  have valid: "dayjs_isValid demo (Date 2026 3 31)"
    by (simp add: demo_def calendar_def)
  have moved: "dayjs_subtract demo (Date 2026 3 31) 1 Month = Date 2026 2 28"
    by code_simp
  have shown: "createInputValue demo (Some (Date 2026 2 28))
      (fieldFormat (field0 (Some (Date 2026 3 31)) ''03/31/2026'')) = ''02/28/2026''"
    by code_simp
  from keydown_nudge [OF ctrl v valid] k
  have "pickerValue (handleKeyDown demo \<lparr>ctrlKey = True, key = ''ArrowLeft''\<rparr>
        (field0 (Some (Date 2026 3 31)) ''03/31/2026'')) = Some (dayjs_subtract demo (Date 2026 3 31) 1 Month)
    \<and> inputValue (handleKeyDown demo \<lparr>ctrlKey = True, key = ''ArrowLeft''\<rparr>
        (field0 (Some (Date 2026 3 31)) ''03/31/2026''))
       = createInputValue demo (Some (dayjs_subtract demo (Date 2026 3 31) 1 Month))
           (fieldFormat (field0 (Some (Date 2026 3 31)) ''03/31/2026''))"
    by blast
  with ctrl valid moved shown show ?thesis by simp
qed

subsection \<open>Keys that change nothing\<close>

text \<open>
  Claim C8 says that the key-down handler changes nothing when Ctrl is not held, or the
  picker value is null or not a valid date object, or the key is not an arrow key. The
  handler tests \<^verbatim>\<open>dayjs.isDayjs\<close>, not \<^verbatim>\<open>isValid\<close>: with an invalid date as picker
  value and \<^verbatim>\<open>abc\<close> typed, Ctrl and ArrowUp empty the input text.
\<close>

theorem keydown_frame_counterexample:
  "pickerValue invalid_then_typed = Some InvalidDate
   \<and> \<not> dayjs_isValid demo InvalidDate
   \<and> inputValue invalid_then_typed = ''abc''
   \<and> inputValue (handleKeyDown demo ctrl_ArrowUp invalid_then_typed) = ''''"
  by code_simp

text \<open>
  Claim C8, amended. When Ctrl is not held, or the picker value is null, or the key is
  none of the four arrow keys, the key-down handler leaves the picker value and the input
  text, and the rest of the state, unchanged.
\<close>

theorem keydown_frame:
  assumes "\<not> ctrlKey event \<or> pickerValue s = None
     \<or> key event \<notin> {''ArrowUp'', ''ArrowDown'', ''ArrowRight'', ''ArrowLeft''}"
  shows "pickerValue (handleKeyDown L event s) = pickerValue s
    \<and> inputValue (handleKeyDown L event s) = inputValue s
    \<and> handleKeyDown L event s = s"
  using assms by (auto simp: handleKeyDown_def nudge_def isDayjs_def split: option.splits)

text \<open>One event for each of the three reasons.\<close>

theorem keydown_frame_witness:
  "key \<lparr>ctrlKey = True, key = ''Enter''\<rparr> \<notin> {''ArrowUp'', ''ArrowDown'', ''ArrowRight'', ''ArrowLeft''}
   \<and> handleKeyDown demo \<lparr>ctrlKey = True, key = ''Enter''\<rparr> invalid_then_typed = invalid_then_typed
   \<and> handleKeyDown demo \<lparr>ctrlKey = False, key = ''ArrowUp''\<rparr> invalid_then_typed = invalid_then_typed
   \<and> handleKeyDown demo ctrl_ArrowUp (field0 None ''abc'') = field0 None ''abc''"
proof -
  have a: "key \<lparr>ctrlKey = True, key = ''Enter''\<rparr> \<notin> {''ArrowUp'', ''ArrowDown'', ''ArrowRight'', ''ArrowLeft''}"
    by simp
  have b: "\<not> ctrlKey \<lparr>ctrlKey = False, key = ''ArrowUp''\<rparr>"
    by simp
  have c: "pickerValue (field0 None ''abc'') = (None :: cal option)"
    by (simp add: field0_def)
  show ?thesis
    using a keydown_frame [of "\<lparr>ctrlKey = True, key = ''Enter''\<rparr>" invalid_then_typed demo]
      keydown_frame [of "\<lparr>ctrlKey = False, key = ''ArrowUp''\<rparr>" invalid_then_typed demo]
      keydown_frame [of ctrl_ArrowUp "field0 None ''abc''" demo] b c
    by blast
qed

subsection \<open>The clear button\<close>

text \<open>
  Claim C9. The clear button sets the picker value to null and the input text to the
  empty string, and calls \<^verbatim>\<open>onClear\<close> once if it was supplied and not otherwise; the
  button is rendered only when \<^verbatim>\<open>clearable\<close> is set and the picker value is not null.
\<close>

theorem clear_click:
  "pickerValue (handleClearClick P s) = None
   \<and> inputValue (handleClearClick P s) = ''''
   \<and> host (handleClearClick P s) = (case onClear P of None \<Rightarrow> host s | Some f \<Rightarrow> f (host s))
   \<and> (clearButton_rendered P s \<longrightarrow> clearable P = Some True \<and> pickerValue s \<noteq> None)"
  by (simp add: handleClearClick_def clearButton_rendered_def split: option.splits)

text \<open>A clearable field with a date: the callback runs once, and the button goes away.\<close>

theorem clear_click_witness:
  "clearButton_rendered props0 (field0 (Some (Date 2026 1 2)) ''01/02/2026'')
   \<and> pickerValue (handleClearClick props0 (field0 (Some (Date 2026 1 2)) ''01/02/2026'')) = None
   \<and> inputValue (handleClearClick props0 (field0 (Some (Date 2026 1 2)) ''01/02/2026'')) = ''''
   \<and> host (handleClearClick props0 (field0 (Some (Date 2026 1 2)) ''01/02/2026'')) = 1
   \<and> host (handleClearClick (props0\<lparr>onClear := None\<rparr>) (field0 (Some (Date 2026 1 2)) ''01/02/2026'')) = 0
   \<and> \<not> clearButton_rendered props0 (handleClearClick props0 (field0 (Some (Date 2026 1 2)) ''01/02/2026''))"
proof -
  have r: "clearButton_rendered props0 (field0 (Some (Date 2026 1 2)) ''01/02/2026'')"
    by (simp add: clearButton_rendered_def props0_def field0_def)
  have h: "host (field0 (Some (Date 2026 1 2)) ''01/02/2026'') = 0"
    by (simp add: field0_def)
  have p: "onClear props0 = Some Suc" "onClear (props0\<lparr>onClear := None\<rparr>) = None"
    by (simp_all add: props0_def)
  show ?thesis
    using r h p
      clear_click [of props0 "field0 (Some (Date 2026 1 2)) ''01/02/2026''"]
      clear_click [of "props0\<lparr>onClear := None\<rparr>" "field0 (Some (Date 2026 1 2)) ''01/02/2026''"]
      clear_click [of props0 "handleClearClick props0 (field0 (Some (Date 2026 1 2)) ''01/02/2026'')"]
    by auto
qed

subsection \<open>The two copies of the rendering helper\<close>

text \<open>
  Claim C10. The helper \<^verbatim>\<open>createInputValue\<close> of the first document and the one of the
  second are the same function: the empty string when the value is null or invalid, the
  value formatted with the format string otherwise.
\<close>

theorem createInputValue_same:
  "createInputValue_v1 L v fmt = createInputValue L v fmt
   \<and> createInputValue L v fmt = createInputValue_spec L v fmt"
  by (cases v) (simp_all add: createInputValue_v1_def createInputValue_def createInputValue_spec_def)

text \<open>A valid date, an invalid date and null.\<close>

theorem createInputValue_same_witness:
  "createInputValue_v1 demo (Some (Date 2026 1 2)) ''MM/DD/YYYY'' = ''01/02/2026''
   \<and> createInputValue demo (Some (Date 2026 1 2)) ''MM/DD/YYYY'' = ''01/02/2026''
   \<and> createInputValue demo (Some InvalidDate) ''MM/DD/YYYY'' = ''''
   \<and> createInputValue_v1 demo None ''MM/DD/YYYY'' = ''''"
proof -
  have a: "createInputValue_spec demo (Some (Date 2026 1 2)) ''MM/DD/YYYY'' = ''01/02/2026''"
    by code_simp
  have b: "createInputValue_spec demo (Some InvalidDate) ''MM/DD/YYYY'' = ''''"
    by code_simp
  have c: "createInputValue_spec demo None ''MM/DD/YYYY'' = ''''"
    by code_simp
  show ?thesis
    using a b c
      createInputValue_same [of demo "Some (Date 2026 1 2)" "''MM/DD/YYYY''"]
      createInputValue_same [of demo "Some InvalidDate" "''MM/DD/YYYY''"]
      createInputValue_same [of demo None "''MM/DD/YYYY''"]
    by simp
qed

end
